theory Spec2Isabelle
  imports Complex_Main "HOL-Library.Finite_Map"
begin

section \<open>Glob patterns of the asset list (views/asset.py, NestedAssetViewSet.list)\<close>

text \<open>
  The list view turns the query parameter \<open>glob\<close> into a regular expression:
  \<^verbatim>\<open>
  glob_pattern = re.escape(glob_pattern)
  queryset = queryset.filter(path__iregex=glob_pattern.replace('\\*', '.*'))
  \<close>
  \<open>re.escape\<close> is the standard library's (Python 3.7 and later): it puts a backslash
  before each character of \<^verbatim>\<open>()[]{}?*+-|^$\.&~# \t\n\r\v\f\<close> and leaves every other
  character alone.
\<close>

definition backslash :: char where
  "backslash = CHR 0x5C"

definition special_chars :: "char list" where
  "special_chars =
     ''()[]{}?*+-|^$'' @ [backslash] @ ''.&~# '' @ [CHR 0x09, CHR 0x0A, CHR 0x0D, CHR 0x0B, CHR 0x0C]"

fun re_escape :: "string \<Rightarrow> string" where
  "re_escape [] = []"
| "re_escape (c # cs) =
     (if c \<in> set special_chars then backslash # c # re_escape cs else c # re_escape cs)"

text \<open>
  \<open>str.replace(old, new)\<close>: the occurrences of \<open>old\<close> are found from the left and do
  not overlap; with an empty \<open>old\<close> Python puts \<open>new\<close> before every character and at
  the end.
\<close>

function replace :: "string \<Rightarrow> string \<Rightarrow> string \<Rightarrow> string" where
  "replace [] old new = (if old = [] then new else [])"
| "replace (c # cs) old new =
     (if old = [] then new @ concat (map (\<lambda>x. x # new) (c # cs))
      else if take (length old) (c # cs) = old
        then new @ replace (drop (length old) (c # cs)) old new
      else c # replace cs old new)"
  by pat_completeness auto
termination
  by (relation "measure (\<lambda>(s, old, new). length s)") (auto simp: neq_Nil_conv)

text \<open>The string handed to the \<open>path__iregex\<close> filter; \<open>None\<close> when no glob was given.\<close>

definition glob_regex :: "string \<Rightarrow> string" where
  "glob_regex glob_pattern = replace (re_escape glob_pattern) [backslash, CHR ''*''] ''.*''"

definition list_path_filter :: "string option \<Rightarrow> string option" where
  "list_path_filter glob = (case glob of None \<Rightarrow> None | Some g \<Rightarrow> Some (glob_regex g))"

text \<open>
  How a regular expression reads such a string, token by token: a backslash makes the
  next character a literal unless that character is a letter or a digit (then the pair is
  a class or constraint escape such as \<^verbatim>\<open>\d\<close>); \<^verbatim>\<open>.*\<close> matches any string; any
  other metacharacter on its own is an operator; every other character is a literal.
\<close>

datatype token = Literal char | AnyString | Operator char | EscapeSequence char

definition metachars :: "char list" where
  "metachars = ''.*+?()[]{}|^$'' @ [backslash]"

definition alnum :: "char \<Rightarrow> bool" where
  "alnum c = (let n = of_char c :: nat
     in (48 \<le> n \<and> n \<le> 57) \<or> (65 \<le> n \<and> n \<le> 90) \<or> (97 \<le> n \<and> n \<le> 122))"

fun tokens :: "string \<Rightarrow> token list" where
  "tokens [] = []"
| "tokens [c] = (if c \<in> set metachars then [Operator c] else [Literal c])"
| "tokens (a # b # cs) =
     (if a = backslash then (if alnum b then EscapeSequence b else Literal b) # tokens cs
      else if a = CHR ''.'' \<and> b = CHR ''*'' then AnyString # tokens cs
      else if a \<in> set metachars then Operator a # tokens (b # cs)
      else Literal a # tokens (b # cs))"

definition glob_token :: "char \<Rightarrow> token" where
  "glob_token c = (if c = CHR ''*'' then AnyString else Literal c)"


section \<open>Data model\<close>

text \<open>
  The models are Django models. Each record has the columns that the views, the
  scheduled tasks, the tests and migration 0020 name. A foreign key is the key of the row
  it points to, \<open>None\<close> for NULL. Time stamps, permission checks and pagination are
  left out.
\<close>

type_synonym uuid = string

text \<open>
  A JSON value as Python holds it after parsing: \<open>None\<close>, a bool, an int, a float (never
  NaN or an infinity in a request or in a JSON column; the model keeps its exact value), a
  str, a list, or a dict with distinct string keys.
\<close>

datatype json = JNull | JBool bool | JNum int | JFloat rat | JStr string | JList "json list"
  | JDict "(string \<times> json) list"

text \<open>Python's truth value of a JSON value (\<open>not x\<close>).\<close>

fun truthy :: "json \<Rightarrow> bool" where
  "truthy JNull = False"
| "truthy (JBool b) = b"
| "truthy (JNum n) = (if n = 0 then False else True)"
| "truthy (JFloat q) = (if q = 0 then False else True)"
| "truthy (JStr s) = (if s = [] then False else True)"
| "truthy (JList xs) = (if xs = [] then False else True)"
| "truthy (JDict kvs) = (if kvs = [] then False else True)"

text \<open>A metadata document is a dictionary with string keys.\<close>

type_synonym metadata = "(string, json) fmap"

text \<open>
  Python's \<open>==\<close> on such values. Numbers are compared by value across bool, int and
  float (\<open>True == 1\<close>, \<open>1 == 1.0\<close>); lists element by element; dicts key by key,
  whatever the order of the keys; values of different kinds are unequal.
\<close>

definition number :: "json \<Rightarrow> rat option" where
  "number j =
     (case j of
        JBool b \<Rightarrow> Some (if b then 1 else 0)
      | JNum n \<Rightarrow> Some (of_int n)
      | JFloat q \<Rightarrow> Some q
      | _ \<Rightarrow> None)"

fun py_eq :: "json \<Rightarrow> json \<Rightarrow> bool"
  and py_eq_list :: "json list \<Rightarrow> json list \<Rightarrow> bool"
  and py_eq_items :: "(string \<times> json) list \<Rightarrow> (string \<times> json) list \<Rightarrow> bool"
  and py_eq_item :: "string \<Rightarrow> json \<Rightarrow> (string \<times> json) list \<Rightarrow> bool" where
  "py_eq JNull b = (case b of JNull \<Rightarrow> True | _ \<Rightarrow> False)"
| "py_eq (JBool x) b =
     (case number b of None \<Rightarrow> False | Some y \<Rightarrow> (if x then 1 else 0) = y)"
| "py_eq (JNum n) b = (case number b of None \<Rightarrow> False | Some y \<Rightarrow> of_int n = y)"
| "py_eq (JFloat q) b = (case number b of None \<Rightarrow> False | Some y \<Rightarrow> q = y)"
| "py_eq (JStr s) b = (case b of JStr t \<Rightarrow> s = t | _ \<Rightarrow> False)"
| "py_eq (JList xs) b = (case b of JList ys \<Rightarrow> py_eq_list xs ys | _ \<Rightarrow> False)"
| "py_eq (JDict kvs) b =
     (case b of
        JDict kvs' \<Rightarrow> length kvs = length kvs' \<and> py_eq_items kvs kvs'
      | _ \<Rightarrow> False)"
| "py_eq_list [] ys = (case ys of [] \<Rightarrow> True | _ \<Rightarrow> False)"
| "py_eq_list (x # xs) ys =
     (case ys of [] \<Rightarrow> False | y # ys' \<Rightarrow> py_eq x y \<and> py_eq_list xs ys')"
| "py_eq_items [] kvs' = True"
| "py_eq_items ((k, v) # kvs) kvs' = (py_eq_item k v kvs' \<and> py_eq_items kvs kvs')"
| "py_eq_item k v [] = False"
| "py_eq_item k v ((k', w) # kvs') = (if k = k' then py_eq v w else py_eq_item k v kvs')"

text \<open>\<open>==\<close> on two metadata documents: the same keys, and equal values under each key.\<close>

definition metadata_eq :: "metadata \<Rightarrow> metadata \<Rightarrow> bool" where
  "metadata_eq m m' =
     (fmdom m = fmdom m' \<and>
      fmpred (\<lambda>k v. case fmlookup m' k of None \<Rightarrow> False | Some w \<Rightarrow> py_eq v w) m)"

datatype status = PENDING | VALID | INVALID

record AssetBlob =
  blob_id :: uuid
  sha256 :: "string option"

datatype ZarrArchiveStatus = ZARR_PENDING | COMPLETE | OTHER string

record ZarrArchive =
  zarr_id :: uuid
  zarr_dandiset :: nat
  zarr_status :: ZarrArchiveStatus
  checksum :: "string option"

record Asset =
  pk :: "nat option"
  asset_id :: uuid
  path :: string
  blob :: "uuid option"
  embargoed_blob :: "uuid option"
  zarr :: "uuid option"
  metadata :: metadata
  status :: status
  validation_errors :: "(string \<times> string) list"
  previous :: "nat option"

record Version =
  version_id :: nat
  dandiset :: nat
  version :: string
  version_status :: status

text \<open>One entry of a path listing: name, leaf or directory, file count, total size.\<close>

type_synonym child = "string \<times> bool \<times> nat \<times> nat"

text \<open>
  The database: one list of rows per table; \<open>version_assets\<close> is the many-to-many
  table behind \<open>version.assets\<close> (version key, asset key); \<open>path_index\<close> holds, for
  a version and a directory prefix, the children of that node.
\<close>

record db =
  Asset_objects :: "Asset list"
  Version_objects :: "Version list"
  version_assets :: "(nat \<times> nat) list"
  AssetBlob_objects :: "AssetBlob list"
  EmbargoedAssetBlob_objects :: "AssetBlob list"
  ZarrArchive_objects :: "ZarrArchive list"
  path_index :: "((nat \<times> string) \<times> child list) list"

datatype detail = Message string | Field string string

datatype error =
    Http404
  | ValidationError detail
  | NotImplementedError string
  | AttributeError string
  | TypeError string
  | KeyError string
  | DoesNotExist

datatype body = Text string | AssetDetail Asset | Paths "child list" | NoBody

datatype response = Response body nat

text \<open>
  What the views take from other modules: \<open>Asset.strip_metadata\<close>, whether a path
  matches \<open>Asset.ASSET_PATH_REGEX\<close>, the setting \<open>DANDI_SCHEMA_VERSION\<close>, the path
  services \<open>add_asset\<close>, \<open>update_asset\<close>, \<open>delete_asset\<close> and the task
  \<open>validate_asset_metadata\<close>. They are parameters of the model; services and task may
  change the database in any way.
\<close>

record env =
  strip_metadata :: "metadata \<Rightarrow> metadata"
  ASSET_PATH_REGEX :: "string \<Rightarrow> bool"
  DANDI_SCHEMA_VERSION :: string
  add_asset :: "Asset \<Rightarrow> Version \<Rightarrow> db \<Rightarrow> db"
  update_asset :: "Asset \<Rightarrow> Asset \<Rightarrow> Version \<Rightarrow> db \<Rightarrow> db"
  delete_asset :: "Asset \<Rightarrow> Version \<Rightarrow> db \<Rightarrow> db"
  validate_asset_metadata :: "nat option \<Rightarrow> db \<Rightarrow> db"

text \<open>
  Modelled from the spec: the properties \<open>is_blob\<close> and \<open>is_embargoed_blob\<close> of the
  Asset model are declared with the model, outside views and tasks; an asset is of a kind
  when the content reference of that kind is set.
\<close>

definition is_blob :: "Asset \<Rightarrow> bool" where
  "is_blob a = (case blob a of None \<Rightarrow> False | Some b \<Rightarrow> True)"

definition is_embargoed_blob :: "Asset \<Rightarrow> bool" where
  "is_embargoed_blob a = (case embargoed_blob a of None \<Rightarrow> False | Some b \<Rightarrow> True)"

text \<open>
  An Asset has the attributes its constructor call in \<open>asset_from_request\<close> and
  migration 0020 name; the zarr reference is \<open>zarr\<close>. There is no attribute
  \<open>zarr_archive\<close> on an Asset (that name is a column of ZarrUploadFile), so reading
  \<open>new_asset.zarr_archive\<close> raises AttributeError.
\<close>

definition zarr_archive :: "Asset \<Rightarrow> error + uuid option" where
  "zarr_archive a = Inl (AttributeError ''zarr_archive'')"

subsection \<open>Queries\<close>

definition get_version :: "db \<Rightarrow> nat \<Rightarrow> string \<Rightarrow> Version option" where
  "get_version d dandiset_pk v =
     find (\<lambda>r. dandiset r = dandiset_pk \<and> version r = v) (Version_objects d)"

definition in_version :: "db \<Rightarrow> Version \<Rightarrow> Asset \<Rightarrow> bool" where
  "in_version d v a =
     list_ex (\<lambda>(vid, aid). vid = version_id v \<and> Some aid = pk a) (version_assets d)"

text \<open>\<open>version.assets\<close>: the assets attached to the version.\<close>

definition assets :: "db \<Rightarrow> Version \<Rightarrow> Asset list" where
  "assets d v = filter (in_version d v) (Asset_objects d)"

text \<open>
  \<open>self.get_object()\<close> of the nested view set: the version of the URL must exist, and
  the asset is looked up by \<open>asset_id\<close> among the assets of that version.
\<close>

definition get_object :: "db \<Rightarrow> nat \<Rightarrow> string \<Rightarrow> uuid \<Rightarrow> error + Asset" where
  "get_object d dandiset_pk v aid =
     (case get_version d dandiset_pk v of
        None \<Rightarrow> Inl Http404
      | Some ver \<Rightarrow>
          (case find (\<lambda>a. asset_id a = aid) (assets d ver) of
             None \<Rightarrow> Inl Http404
           | Some a \<Rightarrow> Inr a))"

definition get_blob :: "AssetBlob list \<Rightarrow> uuid \<Rightarrow> AssetBlob option" where
  "get_blob table b = find (\<lambda>r. blob_id r = b) table"

definition get_zarr :: "db \<Rightarrow> uuid \<Rightarrow> ZarrArchive option" where
  "get_zarr d z = find (\<lambda>r. zarr_id r = z) (ZarrArchive_objects d)"

subsection \<open>Writes\<close>

definition next_pk :: "db \<Rightarrow> nat" where
  "next_pk d =
     Suc (fold max (map (\<lambda>a. case pk a of None \<Rightarrow> 0 | Some n \<Rightarrow> n) (Asset_objects d)) 0)"

text \<open>\<open>asset.save()\<close>: a new row with a fresh key, or the row of that key rewritten.\<close>

definition save :: "Asset \<Rightarrow> db \<Rightarrow> nat \<times> Asset \<times> db" where
  "save a d =
     (case pk a of
        None \<Rightarrow>
          (let n = next_pk d; a' = a\<lparr>pk := Some n\<rparr>
           in (n, a', d\<lparr>Asset_objects := Asset_objects d @ [a']\<rparr>))
      | Some n \<Rightarrow>
          (if list_ex (\<lambda>r. pk r = Some n) (Asset_objects d)
           then (n, a, d\<lparr>Asset_objects :=
                   map (\<lambda>r. if pk r = Some n then a else r) (Asset_objects d)\<rparr>)
           else (n, a, d\<lparr>Asset_objects := Asset_objects d @ [a]\<rparr>)))"

definition assets_add :: "Version \<Rightarrow> nat \<Rightarrow> db \<Rightarrow> db" where
  "assets_add v n d =
     (if (version_id v, n) \<in> set (version_assets d) then d
      else d\<lparr>version_assets := version_assets d @ [(version_id v, n)]\<rparr>)"

definition assets_remove :: "Version \<Rightarrow> Asset \<Rightarrow> db \<Rightarrow> db" where
  "assets_remove v a d =
     d\<lparr>version_assets :=
         filter (\<lambda>(vid, aid). if vid = version_id v \<and> Some aid = pk a then False else True)
           (version_assets d)\<rparr>"

text \<open>\<open>version.save()\<close> writes the columns of the version object to its row.\<close>

definition version_save :: "Version \<Rightarrow> db \<Rightarrow> db" where
  "version_save v d =
     d\<lparr>Version_objects :=
         map (\<lambda>r. if version_id r = version_id v then v else r) (Version_objects d)\<rparr>"


section \<open>Asset requests (views/asset.py)\<close>

text \<open>
  The body of a create or update request after the field checks of the serializer:
  \<open>metadata\<close> is a JSON object, \<open>blob_id\<close> and \<open>zarr_id\<close> are optional.
\<close>

record request =
  req_metadata :: metadata
  req_blob_id :: "uuid option"
  req_zarr_id :: "uuid option"

definition has_key :: "'a option \<Rightarrow> bool" where
  "has_key x = (case x of None \<Rightarrow> False | Some y \<Rightarrow> True)"

definition setdefault :: "metadata \<Rightarrow> string \<Rightarrow> json \<Rightarrow> metadata" where
  "setdefault m k v = (case fmlookup m k of None \<Rightarrow> fmupd k v m | Some x \<Rightarrow> m)"

text \<open>\<open>AssetRequestSerializer.validate\<close>.\<close>

definition validate :: "env \<Rightarrow> request \<Rightarrow> error + request" where
  "validate e data =
     (if has_key (req_blob_id data) = has_key (req_zarr_id data)
      then Inl (ValidationError
                  (Field ''blob_id'' ''Exactly one of blob_id or zarr_id must be specified.''))
      else
        (case fmlookup (req_metadata data) ''path'' of
           None \<Rightarrow> Inl (ValidationError (Field ''metadata'' ''No path specified in metadata.''))
         | Some p \<Rightarrow>
             (if truthy p then
                (case p of
                   JStr path_str \<Rightarrow>
                     (if ASSET_PATH_REGEX e path_str
                      then Inr (data\<lparr>req_metadata :=
                             setdefault (req_metadata data) ''schemaVersion''
                               (JStr (DANDI_SCHEMA_VERSION e))\<rparr>)
                      else Inl (ValidationError (Field ''path'' ''Invalid path.'')))
                 | _ \<Rightarrow> Inl (TypeError ''expected string or bytes-like object''))
              else Inl (ValidationError (Field ''metadata'' ''No path specified in metadata.'')))))"

text \<open>
  \<open>asset_from_request\<close>: the unsaved Asset of a request. \<open>uuid4\<close> is the value that the
  default of \<open>asset_id\<close> draws for the new object.
\<close>

definition new_Asset ::
  "uuid \<Rightarrow> string \<Rightarrow> uuid option \<Rightarrow> uuid option \<Rightarrow> uuid option \<Rightarrow> metadata \<Rightarrow> Asset" where
  "new_Asset uuid4 p b eb z m =
     \<lparr>pk = None, asset_id = uuid4, path = p, blob = b, embargoed_blob = eb, zarr = z,
      metadata = m, status = PENDING, validation_errors = [], previous = None\<rparr>"

definition asset_from_request :: "env \<Rightarrow> uuid \<Rightarrow> request \<Rightarrow> db \<Rightarrow> error + Asset" where
  "asset_from_request e uuid4 req d =
     (case validate e req of
        Inl err \<Rightarrow> Inl err
      | Inr validated_data \<Rightarrow>
          (case fmlookup (req_metadata validated_data) ''path'' of
             Some (JStr p) \<Rightarrow>
               (let m = strip_metadata e (req_metadata validated_data) in
                case req_blob_id validated_data of
                  Some b \<Rightarrow>
                    (case get_blob (AssetBlob_objects d) b of
                       Some r \<Rightarrow> Inr (new_Asset uuid4 p (Some b) None None m)
                     | None \<Rightarrow>
                         (case get_blob (EmbargoedAssetBlob_objects d) b of
                            Some r \<Rightarrow> Inr (new_Asset uuid4 p None (Some b) None m)
                          | None \<Rightarrow> Inl Http404))
                | None \<Rightarrow>
                    (case req_zarr_id validated_data of
                       Some z \<Rightarrow>
                         (case get_zarr d z of
                            Some r \<Rightarrow> Inr (new_Asset uuid4 p None None (Some z) m)
                          | None \<Rightarrow> Inl Http404)
                     | None \<Rightarrow> Inl (NotImplementedError ''Storage type not handled.'')))
           | _ \<Rightarrow> Inl (KeyError ''path'')))"

text \<open>
  \<open>_maybe_validate_asset_metadata\<close>: the blob is read again from the database
  (\<open>refresh_from_db\<close>), and the asset is validated at once when its sha256 is there. An
  asset that is neither a blob nor an embargoed blob is left alone.
\<close>

definition refresh_from_db :: "AssetBlob list \<Rightarrow> uuid option \<Rightarrow> error + AssetBlob" where
  "refresh_from_db table b =
     (case b of
        None \<Rightarrow> Inl (AttributeError ''refresh_from_db'')
      | Some i \<Rightarrow> (case get_blob table i of None \<Rightarrow> Inl DoesNotExist | Some r \<Rightarrow> Inr r))"

definition maybe_validate_asset_metadata :: "env \<Rightarrow> Asset \<Rightarrow> db \<Rightarrow> error + db" where
  "maybe_validate_asset_metadata e asset d =
     (if is_blob asset then
        (case refresh_from_db (AssetBlob_objects d) (blob asset) of
           Inl err \<Rightarrow> Inl err
         | Inr b \<Rightarrow>
             (case sha256 b of
                None \<Rightarrow> Inr d
              | Some h \<Rightarrow> Inr (validate_asset_metadata e (pk asset) d)))
      else if is_embargoed_blob asset then
        (case refresh_from_db (EmbargoedAssetBlob_objects d) (embargoed_blob asset) of
           Inl err \<Rightarrow> Inl err
         | Inr b \<Rightarrow>
             (case sha256 b of
                None \<Rightarrow> Inr d
              | Some h \<Rightarrow> Inr (validate_asset_metadata e (pk asset) d)))
      else Inr d)"

subsection \<open>create\<close>

definition path_taken :: "db \<Rightarrow> Version \<Rightarrow> string \<Rightarrow> bool" where
  "path_taken d v p = list_ex (\<lambda>a. path a = p) (assets d v)"

text \<open>\<open>asset.zarr and asset.zarr.dandiset != version.dandiset\<close>\<close>

definition zarr_of_other_dandiset :: "db \<Rightarrow> Version \<Rightarrow> Asset \<Rightarrow> bool" where
  "zarr_of_other_dandiset d v a =
     (case zarr a of
        None \<Rightarrow> False
      | Some z \<Rightarrow>
          (case get_zarr d z of
             None \<Rightarrow> False
           | Some r \<Rightarrow> (if zarr_dandiset r = dandiset v then False else True)))"

text \<open>
  Lines 336 to 345 of create: the asset is saved and attached, the path service runs,
  the version is marked PENDING and saved. The validation step follows; should it raise,
  these writes stay.
\<close>

definition create_commit :: "env \<Rightarrow> Version \<Rightarrow> Asset \<Rightarrow> db \<Rightarrow> Asset \<times> db" where
  "create_commit e v asset d =
     (case save asset d of
        (n, asset', d1) \<Rightarrow>
          (let d2 = assets_add v n d1;
               d3 = add_asset e asset' v d2;
               d4 = version_save (v\<lparr>version_status := PENDING\<rparr>) d3
           in (asset', d4)))"

definition create ::
  "env \<Rightarrow> uuid \<Rightarrow> nat \<Rightarrow> string \<Rightarrow> request \<Rightarrow> db \<Rightarrow> (error + response) \<times> db" where
  "create e uuid4 versions__dandiset__pk versions__version req d =
     (case get_version d versions__dandiset__pk versions__version of
        None \<Rightarrow> (Inl Http404, d)
      | Some v \<Rightarrow>
          (if version v = ''draft'' then
             (case asset_from_request e uuid4 req d of
                Inl err \<Rightarrow> (Inl err, d)
              | Inr asset \<Rightarrow>
                  (if path_taken d v (path asset)
                   then (Inr (Response (Text ''An asset with that path already exists'') 409), d)
                   else if zarr_of_other_dandiset d v asset
                   then (Inl (ValidationError
                           (Message ''The zarr archive belongs to a different dandiset'')), d)
                   else
                     (case create_commit e v asset d of
                        (asset', d4) \<Rightarrow>
                          (case maybe_validate_asset_metadata e asset' d4 of
                             Inl err \<Rightarrow> (Inl err, d4)
                           | Inr d5 \<Rightarrow> (Inr (Response (AssetDetail asset') 200), d5)))))
           else (Inr (Response (Text ''Only draft versions can be modified.'') 405), d)))"


subsection \<open>update\<close>

text \<open>
  The test of update for "no changes"; \<open>and\<close> evaluates its operands from the left and
  stops at the first false one. The metadata are dicts, compared with \<open>==\<close>; the
  content references are model instances, equal when they are the same row.
\<close>

definition no_changes :: "Asset \<Rightarrow> Asset \<Rightarrow> error + bool" where
  "no_changes new_asset old_asset =
     (if metadata_eq (metadata new_asset) (metadata old_asset) then
        (if blob new_asset = blob old_asset then
           (if embargoed_blob new_asset = embargoed_blob old_asset then
              (case zarr_archive new_asset of
                 Inl err \<Rightarrow> Inl err
               | Inr z \<Rightarrow> Inr (z = zarr old_asset))
            else Inr False)
         else Inr False)
      else Inr False)"

text \<open>
  \<open>version.assets.filter(path=new_asset.path).exclude(asset_id=old_asset.asset_id).exists()\<close>
\<close>

definition path_taken_by_other :: "db \<Rightarrow> Version \<Rightarrow> string \<Rightarrow> uuid \<Rightarrow> bool" where
  "path_taken_by_other d v p aid =
     list_ex (\<lambda>a. path a = p)
       (filter (\<lambda>a. if asset_id a = aid then False else True) (assets d v))"

text \<open>The atomic block of update: the new asset replaces the old one in the version.\<close>

definition update_commit :: "env \<Rightarrow> Version \<Rightarrow> Asset \<Rightarrow> Asset \<Rightarrow> db \<Rightarrow> Asset \<times> db" where
  "update_commit e v old_asset new_asset d =
     (case save (new_asset\<lparr>previous := pk old_asset\<rparr>) d of
        (n, new_asset', d1) \<Rightarrow>
          (let d2 = assets_add v n d1;
               d3 = assets_remove v old_asset d2;
               d4 = update_asset e old_asset new_asset' v d3
           in (new_asset', d4)))"

text \<open>The end of update, common to both branches (lines 414 to 423).\<close>

definition update_finish :: "env \<Rightarrow> Version \<Rightarrow> Asset \<Rightarrow> db \<Rightarrow> (error + response) \<times> db" where
  "update_finish e v new_asset d =
     (let d' = version_save (v\<lparr>version_status := PENDING\<rparr>) d
      in case maybe_validate_asset_metadata e new_asset d' of
           Inl err \<Rightarrow> (Inl err, d')
         | Inr d'' \<Rightarrow> (Inr (Response (AssetDetail new_asset) 200), d''))"

definition update ::
  "env \<Rightarrow> uuid \<Rightarrow> nat \<Rightarrow> string \<Rightarrow> uuid \<Rightarrow> request \<Rightarrow> db \<Rightarrow> (error + response) \<times> db" where
  "update e uuid4 versions__dandiset__pk versions__version aid req d =
     (case get_object d versions__dandiset__pk versions__version aid of
        Inl err \<Rightarrow> (Inl err, d)
      | Inr old_asset \<Rightarrow>
          (case get_version d versions__dandiset__pk versions__version of
             None \<Rightarrow> (Inl Http404, d)
           | Some v \<Rightarrow>
               (if version v = ''draft'' then
                  (case asset_from_request e uuid4 req d of
                     Inl err \<Rightarrow> (Inl err, d)
                   | Inr new_asset \<Rightarrow>
                       (case no_changes new_asset old_asset of
                          Inl err \<Rightarrow> (Inl err, d)
                        | Inr same \<Rightarrow>
                            (if same then update_finish e v old_asset d
                             else if path_taken_by_other d v (path new_asset) (asset_id old_asset)
                             then (Inr (Response (Text ''An asset with that path already exists'')
                                          409), d)
                             else
                               (case update_commit e v old_asset new_asset d of
                                  (new_asset', d4) \<Rightarrow> update_finish e v new_asset' d4))))
                else (Inr (Response (Text ''Only draft versions can be modified.'') 405), d))))"

subsection \<open>destroy\<close>

definition destroy ::
  "env \<Rightarrow> nat \<Rightarrow> string \<Rightarrow> uuid \<Rightarrow> db \<Rightarrow> (error + response) \<times> db" where
  "destroy e versions__dandiset__pk versions__version aid d =
     (case get_object d versions__dandiset__pk versions__version aid of
        Inl err \<Rightarrow> (Inl err, d)
      | Inr asset \<Rightarrow>
          (case get_version d versions__dandiset__pk versions__version of
             None \<Rightarrow> (Inl Http404, d)
           | Some v \<Rightarrow>
               (if version v = ''draft'' then
                  (let d1 = assets_remove v asset d;
                       d2 = delete_asset e asset v d1;
                       d3 = version_save (v\<lparr>version_status := PENDING\<rparr>) d2
                   in (Inr (Response NoBody 204), d3))
                else (Inr (Response (Text ''Only draft versions can be modified.'') 405), d))))"

subsection \<open>paths\<close>

text \<open>
  Modelled from the spec: the service \<open>search_path\<close> lives in \<open>services/asset.py\<close>,
  which the views only import. The spec's \<open>childrenOf(version, pathPrefix)\<close> returns the
  immediate children of the node of that prefix, and an absent result if the prefix
  matches no existing node; the node of a prefix exists when the path index has an entry
  for it.
\<close>

definition search_path :: "string \<Rightarrow> Version \<Rightarrow> db \<Rightarrow> child list option" where
  "search_path p v d = map_of (path_index d) (version_id v, p)"

definition paths :: "nat \<Rightarrow> string \<Rightarrow> string \<Rightarrow> db \<Rightarrow> error + response" where
  "paths versions__dandiset__pk versions__version path_prefix d =
     (case get_version d versions__dandiset__pk versions__version of
        None \<Rightarrow> Inl Http404
      | Some v \<Rightarrow>
          (case search_path path_prefix v d of
             None \<Rightarrow> Inl (ValidationError (Message ''Specified path not found.''))
           | Some children_paths \<Rightarrow> Inr (Response (Paths children_paths) 200)))"

section \<open>Scheduled tasks (tasks/scheduled.py)\<close>

text \<open>A message on the task queue: the task and the key it was called with.\<close>

datatype task =
    validate_asset_metadata_task "nat option"
  | validate_version_metadata_task nat
  | aggregate_assets_summary_task nat
  | write_manifest_files nat

text \<open>\<open>Q(blob__isnull=False) & Q(blob__sha256__isnull=False)\<close>\<close>

definition blob_sha256_set :: "db \<Rightarrow> Asset \<Rightarrow> bool" where
  "blob_sha256_set d a =
     (case blob a of
        None \<Rightarrow> False
      | Some b \<Rightarrow>
          (case get_blob (AssetBlob_objects d) b of
             None \<Rightarrow> False
           | Some r \<Rightarrow> has_key (sha256 r)))"

text \<open>
  \<open>Q(zarr__isnull=False) & Q(zarr__checksum__isnull=False)
    & Q(zarr__status=ZarrArchiveStatus.COMPLETE)\<close>
\<close>

definition zarr_complete :: "db \<Rightarrow> Asset \<Rightarrow> bool" where
  "zarr_complete d a =
     (case zarr a of
        None \<Rightarrow> False
      | Some z \<Rightarrow>
          (case get_zarr d z of
             None \<Rightarrow> False
           | Some r \<Rightarrow> has_key (checksum r) \<and> zarr_status r = COMPLETE))"

definition validatable_assets :: "db \<Rightarrow> Asset list" where
  "validatable_assets d =
     filter (\<lambda>a. blob_sha256_set d a \<or> zarr_complete d a)
       (filter (\<lambda>a. status a = PENDING) (Asset_objects d))"

text \<open>
  \<open>validate_pending_asset_metadata\<close>: one validation task for each validatable asset;
  the pause between two calls of \<open>delay\<close> is left out.
\<close>

definition validate_pending_asset_metadata :: "db \<Rightarrow> task list \<Rightarrow> task list" where
  "validate_pending_asset_metadata d queue =
     (let ids = map pk (validatable_assets d)
      in if 0 < length ids then queue @ map validate_asset_metadata_task ids else queue)"

definition pending_draft_versions :: "db \<Rightarrow> nat list" where
  "pending_draft_versions d =
     map version_id
       (filter (\<lambda>v. version v = ''draft'')
          (filter (\<lambda>v. version_status v = PENDING) (Version_objects d)))"

text \<open>\<open>validate_draft_version_metadata\<close>: three tasks for each pending draft version.\<close>

definition validate_draft_version_metadata :: "db \<Rightarrow> task list \<Rightarrow> task list" where
  "validate_draft_version_metadata d queue =
     (let ids = pending_draft_versions d
      in if 0 < length ids
         then queue @ concat (map (\<lambda>draft_version_id.
                [validate_version_metadata_task draft_version_id,
                 aggregate_assets_summary_task draft_version_id,
                 write_manifest_files draft_version_id]) ids)
         else queue)"

section \<open>A small archive, for evaluating the model\<close>

text \<open>
  Dandiset 1 has a draft version (key 1) and a published version (key 2), dandiset 2 an
  empty draft version (key 3) that is PENDING. Asset 1 (\<open>a.txt\<close>, blob \<open>b1\<close> with its
  sha256) is in both versions of dandiset 1, asset 2 (\<open>b.txt\<close>, blob \<open>b2\<close> still
  without sha256) and asset 3 (\<open>c.zarr\<close>, zarr \<open>z2\<close>, not complete) are in its draft.
  Zarr \<open>z1\<close> is complete and not yet used. The parameters: nothing is stripped from
  metadata, every non-empty path is accepted, the path services do nothing, and the
  validation task marks the asset VALID.
\<close>

definition example_metadata :: "string \<Rightarrow> metadata" where
  "example_metadata p = fmap_of_list [(''path'', JStr p), (''schemaVersion'', JStr ''0.6.0'')]"

definition example_validate :: "nat option \<Rightarrow> db \<Rightarrow> db" where
  "example_validate i d =
     d\<lparr>Asset_objects :=
         map (\<lambda>a. if pk a = i then a\<lparr>status := VALID\<rparr> else a) (Asset_objects d)\<rparr>"

definition example_env :: env where
  "example_env =
     \<lparr>strip_metadata = (\<lambda>m. m),
      ASSET_PATH_REGEX = (\<lambda>p. if p = [] then False else True),
      DANDI_SCHEMA_VERSION = ''0.6.0'',
      add_asset = (\<lambda>a v d. d),
      update_asset = (\<lambda>old new v d. d),
      delete_asset = (\<lambda>a v d. d),
      validate_asset_metadata = example_validate\<rparr>"

definition example_asset :: "nat \<Rightarrow> uuid \<Rightarrow> string \<Rightarrow> uuid option \<Rightarrow> uuid option \<Rightarrow> Asset" where
  "example_asset n aid p b z =
     \<lparr>pk = Some n, asset_id = aid, path = p, blob = b, embargoed_blob = None, zarr = z,
      metadata = example_metadata p, status = PENDING, validation_errors = [],
      previous = None\<rparr>"

definition draft_version :: Version where
  "draft_version = \<lparr>version_id = 1, dandiset = 1, version = ''draft'', version_status = VALID\<rparr>"

definition published_version :: Version where
  "published_version =
     \<lparr>version_id = 2, dandiset = 1, version = ''0.230101.1200'', version_status = PENDING\<rparr>"

definition other_draft_version :: Version where
  "other_draft_version =
     \<lparr>version_id = 3, dandiset = 2, version = ''draft'', version_status = PENDING\<rparr>"

definition example_db :: db where
  "example_db =
     \<lparr>Asset_objects =
        [example_asset 1 ''a1'' ''a.txt'' (Some ''b1'') None,
         example_asset 2 ''a2'' ''b.txt'' (Some ''b2'') None,
         example_asset 3 ''a3'' ''c.zarr'' None (Some ''z2'')],
      Version_objects = [draft_version, published_version, other_draft_version],
      version_assets = [(1, 1), (1, 2), (1, 3), (2, 1)],
      AssetBlob_objects =
        [\<lparr>blob_id = ''b1'', sha256 = Some ''9f86d081''\<rparr>, \<lparr>blob_id = ''b2'', sha256 = None\<rparr>],
      EmbargoedAssetBlob_objects = [],
      ZarrArchive_objects =
        [\<lparr>zarr_id = ''z1'', zarr_dandiset = 1, zarr_status = COMPLETE,
          checksum = Some ''d41d8cd9-1--1''\<rparr>,
         \<lparr>zarr_id = ''z2'', zarr_dandiset = 1, zarr_status = ZARR_PENDING, checksum = None\<rparr>],
      path_index =
        [((1, []), [(''a.txt'', True, 1, 100), (''b.txt'', True, 1, 50),
                    (''c.zarr'', True, 1, 0)])]\<rparr>"

definition example_request :: "string \<Rightarrow> uuid option \<Rightarrow> uuid option \<Rightarrow> request" where
  "example_request p b z = \<lparr>req_metadata = example_metadata p, req_blob_id = b, req_zarr_id = z\<rparr>"

text \<open>
  The same archive when \<open>strip_metadata\<close> takes the path out of the metadata, the path
  being a column of its own: the stored metadata are then without it.
\<close>

definition stripping_env :: env where
  "stripping_env = example_env\<lparr>strip_metadata := fmdrop ''path''\<rparr>"

definition stripped_db :: db where
  "stripped_db =
     example_db\<lparr>Asset_objects :=
       map (\<lambda>a. a\<lparr>metadata := fmdrop ''path'' (metadata a)\<rparr>) (Asset_objects example_db)\<rparr>"


section \<open>Properties stated in the specification\<close>

text \<open>The number of content references an asset has set.\<close>

definition content_references :: "Asset \<Rightarrow> nat" where
  "content_references a = length (filter has_key [blob a, embargoed_blob a, zarr a])"

text \<open>
  The sha256 of the blob or embargoed blob behind an asset, as the database has it;
  \<open>None\<close> when it is not computed yet, and for an asset without a blob.
\<close>

definition content_sha256 :: "db \<Rightarrow> Asset \<Rightarrow> string option" where
  "content_sha256 d a =
     (case blob a of
        Some b \<Rightarrow>
          (case get_blob (AssetBlob_objects d) b of None \<Rightarrow> None | Some r \<Rightarrow> sha256 r)
      | None \<Rightarrow>
          (case embargoed_blob a of
             Some b \<Rightarrow>
               (case get_blob (EmbargoedAssetBlob_objects d) b of
                  None \<Rightarrow> None
                | Some r \<Rightarrow> sha256 r)
           | None \<Rightarrow> None))"

text \<open>
  An asset whose one content reference is not ready: a blob or an embargoed blob whose
  row has no sha256, or a zarr archive that is not COMPLETE with a checksum.
\<close>

definition content_pending :: "db \<Rightarrow> Asset \<Rightarrow> bool" where
  "content_pending d a =
     (case (blob a, embargoed_blob a, zarr a) of
        (Some b, None, None) \<Rightarrow>
          (case get_blob (AssetBlob_objects d) b of
             None \<Rightarrow> False
           | Some r \<Rightarrow> (case sha256 r of None \<Rightarrow> True | Some h \<Rightarrow> False))
      | (None, Some b, None) \<Rightarrow>
          (case get_blob (EmbargoedAssetBlob_objects d) b of
             None \<Rightarrow> False
           | Some r \<Rightarrow> (case sha256 r of None \<Rightarrow> True | Some h \<Rightarrow> False))
      | (None, None, Some z) \<Rightarrow> (if zarr_complete d a then False else True)
      | _ \<Rightarrow> False)"

text \<open>The three tasks that the sweep of draft versions sends for one version.\<close>

definition version_tasks :: "nat \<Rightarrow> task set" where
  "version_tasks i =
     {validate_version_metadata_task i, aggregate_assets_summary_task i, write_manifest_files i}"

text \<open>The two fixed responses of the asset views.\<close>

definition only_draft :: response where
  "only_draft = Response (Text ''Only draft versions can be modified.'') 405"

definition path_exists :: response where
  "path_exists = Response (Text ''An asset with that path already exists'') 409"

definition content_reference_conflict :: error where
  "content_reference_conflict =
     ValidationError (Field ''blob_id'' ''Exactly one of blob_id or zarr_id must be specified.'')"

text \<open>
  The state in which create leaves the example archive when asked for a new asset
  \<open>d.zarr\<close> on the complete zarr archive \<open>z1\<close>, before validation is considered.
\<close>

definition zarr_commit :: "Asset \<times> db" where
  "zarr_commit =
     create_commit example_env draft_version
       (new_Asset ''n1'' ''d.zarr'' None None (Some ''z1'') (example_metadata ''d.zarr''))
       example_db"


text \<open>
  The same for create with a new asset \<open>d.txt\<close> on blob \<open>b1\<close>, and for the atomic
  block of update when asset 2 is given blob \<open>b1\<close> in place of \<open>b2\<close>.
\<close>

definition blob_commit :: "Asset \<times> db" where
  "blob_commit =
     create_commit example_env draft_version
       (new_Asset ''n1'' ''d.txt'' (Some ''b1'') None None (example_metadata ''d.txt''))
       example_db"

definition blob_update_commit :: "Asset \<times> db" where
  "blob_update_commit =
     update_commit example_env draft_version
       (example_asset 2 ''a2'' ''b.txt'' (Some ''b2'') None)
       (new_Asset ''n1'' ''b.txt'' (Some ''b1'') None None (example_metadata ''b.txt''))
       example_db"

section \<open>Facts about the glob translation\<close>

lemma re_escape_no_star: "re_escape cs \<noteq> CHR ''*'' # r"
  by (cases cs) (auto simp: special_chars_def backslash_def split: if_splits)

lemma replace_other:
  "\<not> (a = backslash \<and> (\<exists>r'. r = CHR ''*'' # r')) \<Longrightarrow>
   replace (a # r) [backslash, CHR ''*''] new = a # replace r [backslash, CHR ''*''] new"
  by (cases r) auto

lemma glob_regex_Nil: "glob_regex [] = []"
  by (simp add: glob_regex_def)

lemma glob_regex_Cons:
  "glob_regex (c # cs) =
     (if c = CHR ''*'' then ''.*'' else if c \<in> set special_chars then [backslash, c] else [c])
     @ glob_regex cs"
proof (cases "c = CHR ''*''")
  case True
  then have "c \<in> set special_chars" by (simp add: special_chars_def)
  then show ?thesis using True by (simp add: glob_regex_def)
next
  case False
  show ?thesis
  proof (cases "c \<in> set special_chars")
    case True
    have "replace (backslash # c # re_escape cs) [backslash, CHR ''*''] ''.*''
        = backslash # replace (c # re_escape cs) [backslash, CHR ''*''] ''.*''"
      using False by (intro replace_other) simp
    also have "replace (c # re_escape cs) [backslash, CHR ''*''] ''.*''
        = c # replace (re_escape cs) [backslash, CHR ''*''] ''.*''"
      using re_escape_no_star by (intro replace_other) simp
    finally show ?thesis using True False by (simp add: glob_regex_def del: replace.simps)
  next
    case plain: False
    then have "c \<noteq> backslash" by (auto simp: special_chars_def)
    then have "replace (c # re_escape cs) [backslash, CHR ''*''] ''.*''
        = c # replace (re_escape cs) [backslash, CHR ''*''] ''.*''"
      by (intro replace_other) simp
    then show ?thesis using plain False by (simp add: glob_regex_def del: replace.simps)
  qed
qed

lemma special_not_alnum: "c \<in> set special_chars \<Longrightarrow> \<not> alnum c"
  by (auto simp: special_chars_def alnum_def backslash_def)

lemma tokens_any: "tokens (''.*'' @ r) = AnyString # tokens r"
  by (simp add: backslash_def)

lemma tokens_escaped: "\<not> alnum c \<Longrightarrow> tokens ([backslash, c] @ r) = Literal c # tokens r"
  by simp

lemma tokens_plain: "c \<notin> set special_chars \<Longrightarrow> tokens (c # r) = Literal c # tokens r"
proof -
  assume "c \<notin> set special_chars"
  then have c: "c \<noteq> backslash" "c \<noteq> CHR ''.''" "c \<notin> set metachars"
    by (auto simp: special_chars_def metachars_def)
  show ?thesis
  proof (cases r)
    case Nil
    then show ?thesis using c by simp
  next
    case (Cons b r')
    then show ?thesis using c by simp
  qed
qed

text \<open>
  C10: for every glob string of the asset list, the expression handed to the path filter
  reads, token by token, as the glob itself: each \<open>*\<close> has become \<open>.*\<close> (any string)
  and every other character, regular-expression metacharacters included, is a literal;
  no operator and no escape sequence is left.
\<close>

theorem glob_only_star_is_wildcard: "tokens (glob_regex g) = map glob_token g"
proof (induction g)
  case Nil
  then show ?case by (simp add: glob_regex_Nil)
next
  case (Cons c cs)
  show ?case
  proof (cases "c = CHR ''*''")
    case True
    then show ?thesis using Cons tokens_any by (simp add: glob_regex_Cons glob_token_def)
  next
    case False
    show ?thesis
    proof (cases "c \<in> set special_chars")
      case True
      then show ?thesis
        using Cons False tokens_escaped[OF special_not_alnum[OF True]]
        by (simp add: glob_regex_Cons glob_token_def)
    next
      case plain: False
      then show ?thesis
        using Cons False tokens_plain[OF plain] by (simp add: glob_regex_Cons glob_token_def)
    qed
  qed
qed

section \<open>Facts about the asset views\<close>

lemmas example_defs = example_db_def draft_version_def published_version_def
  other_draft_version_def example_asset_def example_request_def example_metadata_def
  example_env_def

lemmas query_defs = get_object_def get_version_def assets_def in_version_def get_blob_def
  get_zarr_def

lemma get_version_SomeD:
  "get_version d dpk vstr = Some v \<Longrightarrow>
   version v = vstr \<and> dandiset v = dpk \<and> v \<in> set (Version_objects d)"
  by (auto simp: get_version_def find_Some_iff)

text \<open>
  C3: on a version whose version string is not \<open>draft\<close>, create answers 405 "Only draft
  versions can be modified." and leaves the database as it was, and so do update and
  destroy for every asset of that version.
\<close>

theorem non_draft_version_is_immutable:
  assumes "get_version d dpk vstr = Some v" and "vstr \<noteq> ''draft''"
  shows "create e uuid4 dpk vstr req d = (Inr only_draft, d)
       \<and> (\<forall>a. get_object d dpk vstr aid = Inr a \<longrightarrow>
            update e uuid4 dpk vstr aid req d = (Inr only_draft, d)
          \<and> destroy e dpk vstr aid d = (Inr only_draft, d))"
proof -
  have nd: "version v \<noteq> ''draft''"
    using assms get_version_SomeD by blast
  have c: "create e uuid4 dpk vstr req d = (Inr only_draft, d)"
    using assms(1) nd by (simp add: create_def only_draft_def)
  have u: "update e uuid4 dpk vstr aid req d = (Inr only_draft, d)"
    if "get_object d dpk vstr aid = Inr a" for a
    using assms(1) nd that by (simp add: update_def only_draft_def)
  have dd: "destroy e dpk vstr aid d = (Inr only_draft, d)"
    if "get_object d dpk vstr aid = Inr a" for a
    using assms(1) nd that by (simp add: destroy_def only_draft_def)
  show ?thesis using c u dd by blast
qed

theorem non_draft_version_is_immutable_witness:
  "create example_env ''n1'' 1 ''0.230101.1200''
     (example_request ''d.txt'' (Some ''b1'') None) example_db = (Inr only_draft, example_db)
   \<and> update example_env ''n1'' 1 ''0.230101.1200'' ''a1''
       (example_request ''d.txt'' (Some ''b1'') None) example_db = (Inr only_draft, example_db)
   \<and> destroy example_env 1 ''0.230101.1200'' ''a1'' example_db = (Inr only_draft, example_db)"
proof -
  have v: "get_version example_db 1 ''0.230101.1200'' = Some published_version"
    by (simp add: example_defs query_defs)
  have nd: "''0.230101.1200'' \<noteq> ''draft''"
    by simp
  have o: "get_object example_db 1 ''0.230101.1200'' ''a1''
             = Inr (example_asset 1 ''a1'' ''a.txt'' (Some ''b1'') None)"
    by (simp add: example_defs query_defs)
  show ?thesis
    using non_draft_version_is_immutable [OF v nd] o by blast
qed

lemma validate_conflict:
  "has_key (req_blob_id req) = has_key (req_zarr_id req) \<Longrightarrow> validate e req = Inl content_reference_conflict"
  by (simp add: validate_def content_reference_conflict_def)

lemma asset_from_request_conflict:
  "has_key (req_blob_id req) = has_key (req_zarr_id req) \<Longrightarrow> asset_from_request e uuid4 req d = Inl content_reference_conflict"
  by (simp add: asset_from_request_def validate_conflict)

lemma asset_from_request_refs:
  "asset_from_request e uuid4 req d = Inr a \<Longrightarrow> content_references a = 1 \<and> pk a = None"
  by (auto simp: asset_from_request_def new_Asset_def content_references_def has_key_def Let_def
      split: sum.splits option.splits json.splits)

lemma save_fields:
  "save a d = (n, a', d1) \<Longrightarrow> a' = a\<lparr>pk := Some n\<rparr>"
  by (auto simp: save_def Let_def split: option.splits if_splits)

lemma create_commit_refs:
  "create_commit e v a d = (a', d4) \<Longrightarrow> \<exists>n. a' = a\<lparr>pk := Some n\<rparr>"
  by (auto simp: create_commit_def Let_def split: prod.splits dest: save_fields)

lemma update_commit_refs:
  "update_commit e v old a d = (a', d4) \<Longrightarrow> \<exists>n. a' = a\<lparr>previous := pk old, pk := Some n\<rparr>"
  by (auto simp: update_commit_def Let_def split: prod.splits dest!: save_fields)

lemma content_references_pk [simp]: "content_references (a\<lparr>pk := x\<rparr>) = content_references a"
  by (simp add: content_references_def)
lemma content_references_previous [simp]: "content_references (a\<lparr>previous := x\<rparr>) = content_references a"
  by (simp add: content_references_def)

lemma no_changes_not_True: "no_changes new old \<noteq> Inr True"
  by (simp add: no_changes_def zarr_archive_def)

lemma update_finish_ok:
  "update_finish e v a d = (Inr (Response (AssetDetail a') 200), d') \<Longrightarrow> a' = a"
  by (auto simp: update_finish_def Let_def split: sum.splits)

lemma create_accepts:
  "create e uuid4 dpk vstr req d = (Inr (Response (AssetDetail a) 200), d') \<Longrightarrow> content_references a = 1"
  by (auto simp: create_def split: option.splits if_splits sum.splits prod.splits
      dest!: asset_from_request_refs create_commit_refs)

lemma update_accepts:
  "update e uuid4 dpk vstr aid req d = (Inr (Response (AssetDetail a) 200), d') \<Longrightarrow> content_references a = 1"
  using no_changes_not_True
  by (auto simp: update_def split: option.splits if_splits sum.splits prod.splits
      dest!: asset_from_request_refs update_commit_refs update_finish_ok)

text \<open>
  C4: on a draft version, a request with neither or both of \<open>blob_id\<close> and \<open>zarr_id\<close>
  is refused by create and by update with the error "Exactly one of blob_id or zarr_id
  must be specified." and the database is left as it was; and every asset that create or
  update answers with has exactly one of blob, embargoed blob and zarr set.
\<close>

theorem exactly_one_content_reference:
  assumes "get_version d dpk vstr = Some v" and "version v = ''draft''"
  shows "(has_key (req_blob_id req) = has_key (req_zarr_id req) \<longrightarrow>
            asset_from_request e uuid4 req d = Inl content_reference_conflict
          \<and> create e uuid4 dpk vstr req d = (Inl content_reference_conflict, d)
          \<and> (\<forall>old. get_object d dpk vstr aid = Inr old \<longrightarrow>
                update e uuid4 dpk vstr aid req d = (Inl content_reference_conflict, d)))
       \<and> (\<forall>a d'. create e uuid4 dpk vstr req d = (Inr (Response (AssetDetail a) 200), d')
             \<longrightarrow> content_references a = 1)
       \<and> (\<forall>a d'. update e uuid4 dpk vstr aid req d = (Inr (Response (AssetDetail a) 200), d')
             \<longrightarrow> content_references a = 1)"
proof -
  have c: "create e uuid4 dpk vstr req d = (Inl content_reference_conflict, d)"
    if "has_key (req_blob_id req) = has_key (req_zarr_id req)"
    using assms asset_from_request_conflict [OF that] by (simp add: create_def)
  have u: "update e uuid4 dpk vstr aid req d = (Inl content_reference_conflict, d)"
    if "has_key (req_blob_id req) = has_key (req_zarr_id req)"
      and "get_object d dpk vstr aid = Inr old" for old
    using assms that(2) asset_from_request_conflict [OF that(1)] by (simp add: update_def)
  show ?thesis
  proof (intro conjI impI allI)
    assume "has_key (req_blob_id req) = has_key (req_zarr_id req)"
    then show "asset_from_request e uuid4 req d = Inl content_reference_conflict"
      by (rule asset_from_request_conflict)
  next
    assume "has_key (req_blob_id req) = has_key (req_zarr_id req)"
    then show "create e uuid4 dpk vstr req d = (Inl content_reference_conflict, d)"
      by (rule c)
  next
    fix old
    assume "has_key (req_blob_id req) = has_key (req_zarr_id req)"
      and "get_object d dpk vstr aid = Inr old"
    then show "update e uuid4 dpk vstr aid req d = (Inl content_reference_conflict, d)"
      by (rule u)
  next
    fix a d'
    assume "create e uuid4 dpk vstr req d = (Inr (Response (AssetDetail a) 200), d')"
    then show "content_references a = 1"
      by (rule create_accepts)
  next
    fix a d'
    assume "update e uuid4 dpk vstr aid req d = (Inr (Response (AssetDetail a) 200), d')"
    then show "content_references a = 1"
      by (rule update_accepts)
  qed
qed

theorem exactly_one_content_reference_witness:
  "create example_env ''n1'' 1 ''draft'' (example_request ''d.txt'' None None) example_db
     = (Inl content_reference_conflict, example_db)
   \<and> update example_env ''n1'' 1 ''draft'' ''a1'' (example_request ''d.txt'' None None) example_db
     = (Inl content_reference_conflict, example_db)
   \<and> create example_env ''n1'' 1 ''draft'' (example_request ''d.txt'' (Some ''b1'') (Some ''z1'')) example_db
     = (Inl content_reference_conflict, example_db)
   \<and> content_references (fst zarr_commit) = 1"
proof -
  have v: "get_version example_db 1 ''draft'' = Some draft_version"
    by (simp add: example_defs query_defs)
  have dr: "version draft_version = ''draft''" by (simp add: draft_version_def)
  have o: "get_object example_db 1 ''draft'' ''a1''
             = Inr (example_asset 1 ''a1'' ''a.txt'' (Some ''b1'') None)"
    by (simp add: example_defs query_defs)
  have n: "has_key (req_blob_id (example_request ''d.txt'' None None))
         = has_key (req_zarr_id (example_request ''d.txt'' None None))"
    by (simp add: example_request_def has_key_def)
  have b: "has_key (req_blob_id (example_request ''d.txt'' (Some ''b1'') (Some ''z1'')))
         = has_key (req_zarr_id (example_request ''d.txt'' (Some ''b1'') (Some ''z1'')))"
    by (simp add: example_request_def has_key_def)
  have z: "create example_env ''n1'' 1 ''draft'' (example_request ''d.zarr'' None (Some ''z1'')) example_db
     = (Inr (Response (AssetDetail (fst zarr_commit)) 200), snd zarr_commit)"
    by (simp add: create_def example_defs query_defs asset_from_request_def validate_def has_key_def
        setdefault_def new_Asset_def path_taken_def zarr_of_other_dandiset_def zarr_commit_def
        maybe_validate_asset_metadata_def is_blob_def is_embargoed_blob_def create_commit_def save_def Let_def split: prod.splits)
  show ?thesis
    using exactly_one_content_reference [OF v dr, of "example_request ''d.txt'' None None" example_env "''n1''"]
      exactly_one_content_reference [OF v dr, of "example_request ''d.txt'' (Some ''b1'') (Some ''z1'')" example_env "''n1''"]
      exactly_one_content_reference [OF v dr, of "example_request ''d.zarr'' None (Some ''z1'')" example_env "''n1''"]
      n b z o by blast
qed

lemma path_taken_iff: "path_taken d v p \<longleftrightarrow> (\<exists>a\<in>set (assets d v). path a = p)"
  by (auto simp: path_taken_def list_ex_iff)

lemma path_taken_by_other_iff:
  "path_taken_by_other d v p aid \<longleftrightarrow> (\<exists>a\<in>set (assets d v). asset_id a \<noteq> aid \<and> path a = p)"
  by (auto simp: path_taken_by_other_def list_ex_iff)

text \<open>
  Where the check for a taken path is reached, it answers 409 "An asset with that path
  already exists" and leaves the database as it was: in create always, in update once the
  test for "no changes" has come out false.
\<close>

lemma taken_path_conflict:
  assumes "get_version d dpk vstr = Some v" and "version v = ''draft''"
  shows "(\<forall>asset. asset_from_request e uuid4 req d = Inr asset
            \<and> (\<exists>a\<in>set (assets d v). path a = path asset)
          \<longrightarrow> create e uuid4 dpk vstr req d = (Inr path_exists, d))
       \<and> (\<forall>old new. get_object d dpk vstr aid = Inr old
            \<and> asset_from_request e uuid4 req d = Inr new
            \<and> no_changes new old = Inr False
            \<and> (\<exists>a\<in>set (assets d v). asset_id a \<noteq> asset_id old \<and> path a = path new)
          \<longrightarrow> update e uuid4 dpk vstr aid req d = (Inr path_exists, d))"
proof -
  have c: "create e uuid4 dpk vstr req d = (Inr path_exists, d)"
    if "asset_from_request e uuid4 req d = Inr asset" and "\<exists>a\<in>set (assets d v). path a = path asset"
    for asset
    using assms that by (simp add: create_def path_exists_def path_taken_iff)
  have u: "update e uuid4 dpk vstr aid req d = (Inr path_exists, d)"
    if "get_object d dpk vstr aid = Inr old" and "asset_from_request e uuid4 req d = Inr new"
      and "no_changes new old = Inr False"
      and "\<exists>a\<in>set (assets d v). asset_id a \<noteq> asset_id old \<and> path a = path new"
    for old new
    using assms that by (simp add: update_def path_exists_def path_taken_by_other_iff)
  show ?thesis using c u by blast
qed

lemmas request_defs = asset_from_request_def validate_def has_key_def setdefault_def new_Asset_def

lemma example_metadata_eq: "metadata_eq (example_metadata p) (example_metadata q) \<longleftrightarrow> p = q"
  by (auto simp: metadata_eq_def example_metadata_def fmpred_iff fmlookup_of_list
      split: if_splits)

lemma taken_path_conflict_example:
  "create example_env ''n1'' 1 ''draft'' (example_request ''a.txt'' (Some ''b2'') None) example_db
     = (Inr path_exists, example_db)
   \<and> update example_env ''n1'' 1 ''draft'' ''a1'' (example_request ''b.txt'' (Some ''b1'') None)
       example_db = (Inr path_exists, example_db)"
proof -
  let ?a1 = "example_asset 1 ''a1'' ''a.txt'' (Some ''b1'') None"
  let ?a2 = "example_asset 2 ''a2'' ''b.txt'' (Some ''b2'') None"
  let ?n1 = "new_Asset ''n1'' ''a.txt'' (Some ''b2'') None None (example_metadata ''a.txt'')"
  let ?n2 = "new_Asset ''n1'' ''b.txt'' (Some ''b1'') None None (example_metadata ''b.txt'')"
  have v: "get_version example_db 1 ''draft'' = Some draft_version"
    by (simp add: example_defs query_defs)
  have dr: "version draft_version = ''draft''"
    by (simp add: draft_version_def)
  have o: "get_object example_db 1 ''draft'' ''a1'' = Inr ?a1"
    by (simp add: example_defs query_defs)
  have r1: "asset_from_request example_env ''n1'' (example_request ''a.txt'' (Some ''b2'') None)
              example_db = Inr ?n1"
    by (simp add: example_defs query_defs request_defs)
  have r2: "asset_from_request example_env ''n1'' (example_request ''b.txt'' (Some ''b1'') None)
              example_db = Inr ?n2"
    by (simp add: example_defs query_defs request_defs)
  have m1: "?a1 \<in> set (assets example_db draft_version)"
    by (simp add: example_defs query_defs)
  have m2: "?a2 \<in> set (assets example_db draft_version)"
    by (simp add: example_defs query_defs)
  have p1: "\<exists>a\<in>set (assets example_db draft_version). path a = path ?n1"
    using m1 by (intro bexI [of _ ?a1]) (simp_all add: example_asset_def new_Asset_def)
  have p2: "\<exists>a\<in>set (assets example_db draft_version).
              asset_id a \<noteq> asset_id ?a1 \<and> path a = path ?n2"
    using m2 by (intro bexI [of _ ?a2]) (simp_all add: example_asset_def new_Asset_def)
  have nc: "no_changes ?n2 ?a1 = Inr False"
    by (simp add: no_changes_def new_Asset_def example_asset_def example_metadata_eq)
  show ?thesis
    using taken_path_conflict [OF v dr, of example_env "''n1''"
        "example_request ''a.txt'' (Some ''b2'') None"]
      taken_path_conflict [OF v dr, of example_env "''n1''"
        "example_request ''b.txt'' (Some ''b1'') None" "''a1''"]
      o r1 r2 p1 p2 nc by blast
qed


lemmas commit_defs = create_commit_def update_commit_def save_def next_pk_def assets_add_def
  assets_remove_def version_save_def Let_def

lemma maybe_validate_ready:
  "content_sha256 d a = Some h \<Longrightarrow>
   maybe_validate_asset_metadata e a d = Inr (validate_asset_metadata e (pk a) d)"
  by (auto simp: content_sha256_def maybe_validate_asset_metadata_def is_blob_def
      is_embargoed_blob_def refresh_from_db_def split: option.splits)

lemma content_sha256_no_zarr:
  "content_references a = 1 \<Longrightarrow> content_sha256 d a = Some h \<Longrightarrow> zarr a = None"
  by (auto simp: content_references_def content_sha256_def has_key_def split: option.splits)

lemma content_sha256_pk [simp]: "content_sha256 d (a\<lparr>pk := x\<rparr>) = content_sha256 d a"
  by (simp add: content_sha256_def split: option.splits)

text \<open>
  C6, as amended: when create or a replacing update succeeds for an asset whose blob or
  embargoed blob has its sha256, the validation task is run on the new asset as the last
  step of the request, on the database as the request has left it.
\<close>

theorem blob_assets_validated_inline:
  assumes "get_version d dpk vstr = Some v" and "version v = ''draft''"
  shows "(\<forall>asset asset' d4 h. asset_from_request e uuid4 req d = Inr asset
            \<and> \<not> path_taken d v (path asset)
            \<and> create_commit e v asset d = (asset', d4)
            \<and> content_sha256 d4 asset' = Some h
          \<longrightarrow> create e uuid4 dpk vstr req d
                = (Inr (Response (AssetDetail asset') 200),
                   validate_asset_metadata e (pk asset') d4))
       \<and> (\<forall>old new new' d4 h. get_object d dpk vstr aid = Inr old
            \<and> asset_from_request e uuid4 req d = Inr new
            \<and> no_changes new old = Inr False
            \<and> \<not> path_taken_by_other d v (path new) (asset_id old)
            \<and> update_commit e v old new d = (new', d4)
            \<and> content_sha256 (version_save (v\<lparr>version_status := PENDING\<rparr>) d4) new' = Some h
          \<longrightarrow> update e uuid4 dpk vstr aid req d
                = (Inr (Response (AssetDetail new') 200),
                   validate_asset_metadata e (pk new')
                     (version_save (v\<lparr>version_status := PENDING\<rparr>) d4)))"
proof -
  have c: "create e uuid4 dpk vstr req d
         = (Inr (Response (AssetDetail asset') 200), validate_asset_metadata e (pk asset') d4)"
    if r: "asset_from_request e uuid4 req d = Inr asset"
      and p: "\<not> path_taken d v (path asset)"
      and cc: "create_commit e v asset d = (asset', d4)"
      and h: "content_sha256 d4 asset' = Some h"
    for asset asset' d4 h
  proof -
    obtain n where a': "asset' = asset\<lparr>pk := Some n\<rparr>"
      using create_commit_refs [OF cc] by blast
    have "content_references asset = 1"
      using asset_from_request_refs [OF r] by simp
    moreover have "content_sha256 d4 asset = Some h"
      using h a' by simp
    ultimately have "zarr asset = None"
      by (rule content_sha256_no_zarr)
    then have z: "zarr_of_other_dandiset d v asset = False"
      by (simp add: zarr_of_other_dandiset_def)
    show ?thesis
      using assms r p cc z maybe_validate_ready [OF h, of e] by (simp add: create_def)
  qed
  have u: "update e uuid4 dpk vstr aid req d
         = (Inr (Response (AssetDetail new') 200),
            validate_asset_metadata e (pk new')
              (version_save (v\<lparr>version_status := PENDING\<rparr>) d4))"
    if "get_object d dpk vstr aid = Inr old"
      and "asset_from_request e uuid4 req d = Inr new"
      and "no_changes new old = Inr False"
      and "\<not> path_taken_by_other d v (path new) (asset_id old)"
      and "update_commit e v old new d = (new', d4)"
      and h: "content_sha256 (version_save (v\<lparr>version_status := PENDING\<rparr>) d4) new' = Some h"
    for old new new' d4 h
    using assms that maybe_validate_ready [OF h, of e]
    by (simp add: update_def update_finish_def Let_def)
  show ?thesis using c u by blast
qed

theorem blob_assets_validated_inline_witness:
  "create example_env ''n1'' 1 ''draft'' (example_request ''d.txt'' (Some ''b1'') None) example_db
     = (Inr (Response (AssetDetail (fst blob_commit)) 200),
        example_validate (pk (fst blob_commit)) (snd blob_commit))
   \<and> update example_env ''n1'' 1 ''draft'' ''a2'' (example_request ''b.txt'' (Some ''b1'') None)
       example_db
     = (Inr (Response (AssetDetail (fst blob_update_commit)) 200),
        example_validate (pk (fst blob_update_commit))
          (version_save (draft_version\<lparr>version_status := PENDING\<rparr>) (snd blob_update_commit)))"
proof -
  let ?a2 = "example_asset 2 ''a2'' ''b.txt'' (Some ''b2'') None"
  let ?n1 = "new_Asset ''n1'' ''d.txt'' (Some ''b1'') None None (example_metadata ''d.txt'')"
  let ?n2 = "new_Asset ''n1'' ''b.txt'' (Some ''b1'') None None (example_metadata ''b.txt'')"
  let ?d' = "version_save (draft_version\<lparr>version_status := PENDING\<rparr>) (snd blob_update_commit)"
  have v: "get_version example_db 1 ''draft'' = Some draft_version"
    by (simp add: example_defs query_defs)
  have dr: "version draft_version = ''draft''"
    by (simp add: draft_version_def)
  have o: "get_object example_db 1 ''draft'' ''a2'' = Inr ?a2"
    by (simp add: example_defs query_defs)
  have r1: "asset_from_request example_env ''n1'' (example_request ''d.txt'' (Some ''b1'') None)
              example_db = Inr ?n1"
    by (simp add: example_defs query_defs request_defs)
  have r2: "asset_from_request example_env ''n1'' (example_request ''b.txt'' (Some ''b1'') None)
              example_db = Inr ?n2"
    by (simp add: example_defs query_defs request_defs)
  have p1: "\<not> path_taken example_db draft_version (path ?n1)"
    by (simp add: path_taken_def example_defs query_defs new_Asset_def)
  have p2: "\<not> path_taken_by_other example_db draft_version (path ?n2) (asset_id ?a2)"
    by (simp add: path_taken_by_other_def example_defs query_defs new_Asset_def)
  have nc: "no_changes ?n2 ?a2 = Inr False"
    by (simp add: no_changes_def new_Asset_def example_asset_def example_metadata_eq)
  have c1: "create_commit example_env draft_version ?n1 example_db
              = (fst blob_commit, snd blob_commit)"
    by (simp add: blob_commit_def)
  have c2: "update_commit example_env draft_version ?a2 ?n2 example_db
              = (fst blob_update_commit, snd blob_update_commit)"
    by (simp add: blob_update_commit_def)
  have h1: "content_sha256 (snd blob_commit) (fst blob_commit) = Some ''9f86d081''"
    by (simp add: blob_commit_def content_sha256_def commit_defs example_defs query_defs
        new_Asset_def)
  have h2: "content_sha256 ?d' (fst blob_update_commit) = Some ''9f86d081''"
    by (simp add: blob_update_commit_def content_sha256_def commit_defs example_defs query_defs
        new_Asset_def)
  have e: "validate_asset_metadata example_env = example_validate"
    by (simp add: example_env_def)
  show ?thesis
    using blob_assets_validated_inline [OF v dr, of example_env "''n1''" "example_request ''d.txt'' (Some ''b1'') None"]
      blob_assets_validated_inline [OF v dr, of example_env "''n1''" "example_request ''b.txt'' (Some ''b1'') None" "''a2''"]
      o r1 r2 p1 p2 nc c1 c2 h1 h2 e by metis
qed

text \<open>
  C6 as stated fails for zarr archives: create succeeds for a new asset on the archive
  \<open>z1\<close>, which is COMPLETE and has its checksum, and returns the database as it was
  before validation, although the validation task would have changed it.
\<close>

theorem zarr_asset_not_validated_inline:
  "create example_env ''n1'' 1 ''draft'' (example_request ''d.zarr'' None (Some ''z1'')) example_db
     = (Inr (Response (AssetDetail (fst zarr_commit)) 200), snd zarr_commit)
   \<and> zarr_complete (snd zarr_commit) (fst zarr_commit)
   \<and> validate_asset_metadata example_env (pk (fst zarr_commit)) (snd zarr_commit)
       \<noteq> snd zarr_commit"
  by (simp add: create_def example_defs query_defs request_defs path_taken_def
      zarr_of_other_dandiset_def zarr_commit_def maybe_validate_asset_metadata_def is_blob_def
      is_embargoed_blob_def commit_defs zarr_complete_def example_validate_def)

lemma content_pending_no_validation:
  "content_pending d a \<Longrightarrow>
   maybe_validate_asset_metadata e a d = Inr d"
  by (auto simp: content_pending_def maybe_validate_asset_metadata_def is_blob_def
      is_embargoed_blob_def refresh_from_db_def split: option.splits if_splits)

lemma content_pending_not_validatable:
  "content_pending d a \<Longrightarrow> a \<notin> set (validatable_assets d)"
  by (auto simp: content_pending_def validatable_assets_def blob_sha256_set_def has_key_def
      zarr_complete_def split: option.splits if_splits)

text \<open>
  C2: for an asset whose content is not ready (a blob or embargoed blob without sha256,
  or a zarr archive that is not COMPLETE with a checksum), the validation step of the
  views returns without an error and leaves the database, and with it the status and
  the validation errors of every asset, as it was, whatever the validation task would
  do; and the scheduled sweep does not select the asset. (The task called by itself is
  another matter: \<open>test_validate_asset_metadata_no_digest\<close> expects it to mark a blob
  asset without sha256 INVALID. The two callers here never call it on such an asset.)
\<close>

theorem validation_deferred_until_content_ready:
  assumes "content_pending d a"
  shows "maybe_validate_asset_metadata e a d = Inr d \<and> a \<notin> set (validatable_assets d)"
  using assms content_pending_no_validation content_pending_not_validatable by blast

theorem validation_deferred_until_content_ready_witness:
  "maybe_validate_asset_metadata example_env (example_asset 2 ''a2'' ''b.txt'' (Some ''b2'') None)
     example_db = Inr example_db
   \<and> example_asset 2 ''a2'' ''b.txt'' (Some ''b2'') None \<notin> set (validatable_assets example_db)
   \<and> maybe_validate_asset_metadata example_env
       (example_asset 3 ''a3'' ''c.zarr'' None (Some ''z2'')) example_db = Inr example_db
   \<and> example_asset 3 ''a3'' ''c.zarr'' None (Some ''z2'') \<notin> set (validatable_assets example_db)"
proof -
  have b: "content_pending example_db (example_asset 2 ''a2'' ''b.txt'' (Some ''b2'') None)"
    by (simp add: content_pending_def example_defs query_defs)
  have z: "content_pending example_db (example_asset 3 ''a3'' ''c.zarr'' None (Some ''z2''))"
    by (simp add: content_pending_def zarr_complete_def example_defs query_defs has_key_def)
  show ?thesis
    using validation_deferred_until_content_ready [OF b, of example_env] validation_deferred_until_content_ready [OF z, of example_env] by simp
qed

text \<open>
  Whenever metadata, blob and embargoed blob of the request equal the old asset's, update
  reads \<open>new_asset.zarr_archive\<close> and raises, before the path check and before any write.
\<close>

lemma update_same_content_raises:
  assumes "get_object d dpk vstr aid = Inr old"
      and "get_version d dpk vstr = Some v" and "version v = ''draft''"
      and "asset_from_request e uuid4 req d = Inr new"
      and "metadata_eq (metadata new) (metadata old)" and "blob new = blob old"
      and "embargoed_blob new = embargoed_blob old"
  shows "update e uuid4 dpk vstr aid req d = (Inl (AttributeError ''zarr_archive''), d)"
  using assms by (simp add: update_def no_changes_def zarr_archive_def)

text \<open>
  C1: an update whose request repeats the old asset (same path and metadata, same
  content reference) is meant to return the old asset and to create nothing. On the
  request that repeats asset 1 of the draft version, the test for "no changes" reads
  \<open>new_asset.zarr_archive\<close> and update ends in an AttributeError; the database is
  as it was, but no asset is returned.
\<close>

theorem update_identical_request_raises:
  "update example_env ''n1'' 1 ''draft'' ''a1'' (example_request ''a.txt'' (Some ''b1'') None)
     example_db = (Inl (AttributeError ''zarr_archive''), example_db)"
proof -
  let ?a1 = "example_asset 1 ''a1'' ''a.txt'' (Some ''b1'') None"
  let ?n = "new_Asset ''n1'' ''a.txt'' (Some ''b1'') None None (example_metadata ''a.txt'')"
  have v: "get_version example_db 1 ''draft'' = Some draft_version"
    by (simp add: example_defs query_defs)
  have dr: "version draft_version = ''draft''"
    by (simp add: draft_version_def)
  have o: "get_object example_db 1 ''draft'' ''a1'' = Inr ?a1"
    by (simp add: example_defs query_defs)
  have r: "asset_from_request example_env ''n1'' (example_request ''a.txt'' (Some ''b1'') None)
             example_db = Inr ?n"
    by (simp add: example_defs query_defs request_defs)
  have m: "metadata_eq (metadata ?n) (metadata ?a1)"
    by (simp add: new_Asset_def example_asset_def example_metadata_eq)
  have b: "blob ?n = blob ?a1" "embargoed_blob ?n = embargoed_blob ?a1"
    by (simp_all add: new_Asset_def example_asset_def)
  show ?thesis
    using update_same_content_raises [OF o v dr r m b] .
qed

text \<open>
  C5: update is meant to answer 409 whenever an asset of the version other than the old
  one is at the new path. Asked to move asset 1 to \<open>b.txt\<close>, where asset 2 is, with
  nothing else changed, and the path not being part of the compared metadata, update
  finds metadata, blob and embargoed blob equal, reads \<open>new_asset.zarr_archive\<close> and
  ends in an AttributeError; the path check is not reached.
\<close>

theorem update_onto_taken_path_raises:
  "asset_from_request stripping_env ''n1'' (example_request ''b.txt'' (Some ''b1'') None)
     stripped_db
     = Inr (new_Asset ''n1'' ''b.txt'' (Some ''b1'') None None
              (fmdrop ''path'' (example_metadata ''b.txt'')))
   \<and> path_taken_by_other stripped_db draft_version ''b.txt'' ''a1''
   \<and> update stripping_env ''n1'' 1 ''draft'' ''a1''
       (example_request ''b.txt'' (Some ''b1'') None) stripped_db
     = (Inl (AttributeError ''zarr_archive''), stripped_db)"
proof -
  let ?a1 = "(example_asset 1 ''a1'' ''a.txt'' (Some ''b1'') None)
               \<lparr>metadata := fmdrop ''path'' (example_metadata ''a.txt'')\<rparr>"
  let ?n = "new_Asset ''n1'' ''b.txt'' (Some ''b1'') None None
              (fmdrop ''path'' (example_metadata ''b.txt''))"
  have v: "get_version stripped_db 1 ''draft'' = Some draft_version"
    by (simp add: stripped_db_def example_defs query_defs)
  have dr: "version draft_version = ''draft''"
    by (simp add: draft_version_def)
  have o: "get_object stripped_db 1 ''draft'' ''a1'' = Inr ?a1"
    by (simp add: stripped_db_def example_defs query_defs)
  have r: "asset_from_request stripping_env ''n1''
             (example_request ''b.txt'' (Some ''b1'') None) stripped_db = Inr ?n"
    by (simp add: stripping_env_def stripped_db_def example_defs query_defs request_defs)
  have t: "path_taken_by_other stripped_db draft_version ''b.txt'' ''a1''"
    by (simp add: path_taken_by_other_def stripped_db_def example_defs query_defs)
  have s: "fmdrop ''path'' (example_metadata p)
             = fmap_of_list [(''schemaVersion'', JStr ''0.6.0'')]" for p
    by (rule fmap_ext) (simp add: example_metadata_def fmlookup_of_list)
  have m: "metadata_eq (metadata ?n) (metadata ?a1)"
    by (simp add: new_Asset_def example_asset_def s metadata_eq_def fmpred_iff
        fmlookup_of_list)
  have b: "blob ?n = blob ?a1" "embargoed_blob ?n = embargoed_blob ?a1"
    by (simp_all add: new_Asset_def example_asset_def)
  show ?thesis
    using r t update_same_content_raises [OF o v dr r m b] by simp
qed

section \<open>Facts about the path listing\<close>

text \<open>
  C8: for a version and a prefix that has no node in the path index of the version, the
  paths view raises "Specified path not found." and returns no listing.
\<close>

theorem unknown_prefix_is_not_found:
  assumes "get_version d dpk vstr = Some v"
      and "(version_id v, p) \<notin> fst ` set (path_index d)"
  shows "paths dpk vstr p d = Inl (ValidationError (Message ''Specified path not found.''))"
proof -
  have "search_path p v d = None"
    using assms(2) by (simp add: search_path_def map_of_eq_None_iff)
  then show ?thesis
    using assms(1) by (simp add: paths_def)
qed

theorem unknown_prefix_is_not_found_witness:
  "paths 1 ''draft'' ''sub/'' example_db
     = Inl (ValidationError (Message ''Specified path not found.''))"
proof -
  have v: "get_version example_db 1 ''draft'' = Some draft_version"
    by (simp add: example_defs query_defs)
  have n: "(version_id draft_version, ''sub/'') \<notin> fst ` set (path_index example_db)"
    by (simp add: example_defs)
  show ?thesis
    using unknown_prefix_is_not_found [OF v n] .
qed

section \<open>Facts about the scheduled sweeps\<close>

lemma pending_draft_versions_set:
  "set (pending_draft_versions d) =
     version_id ` {v \<in> set (Version_objects d). version_status v = PENDING \<and> version v = ''draft''}"
  by (auto simp: pending_draft_versions_def)

text \<open>
  C9: the tasks that the sweep of draft versions adds to the queue are exactly the three
  tasks of each version with status PENDING and version string \<open>draft\<close>; when the
  keys of the versions are distinct, none of the three tasks is sent for a version that
  is not a draft.
\<close>

theorem sweep_schedules_pending_drafts_only:
  "set (validate_draft_version_metadata d queue) =
     set queue \<union> (\<Union>v \<in> {v \<in> set (Version_objects d).
                           version_status v = PENDING \<and> version v = ''draft''}.
                     version_tasks (version_id v))
   \<and> (distinct (map version_id (Version_objects d)) \<longrightarrow>
        (\<forall>v \<in> set (Version_objects d). version v \<noteq> ''draft'' \<longrightarrow>
           version_tasks (version_id v) \<inter> set (validate_draft_version_metadata d []) = {}))"
proof -
  have s: "set (validate_draft_version_metadata d q) =
     set q \<union> (\<Union>i \<in> set (pending_draft_versions d). version_tasks i)" for q
    by (auto simp: validate_draft_version_metadata_def Let_def version_tasks_def)
  have a: "set (validate_draft_version_metadata d queue) =
     set queue \<union> (\<Union>v \<in> {v \<in> set (Version_objects d).
                           version_status v = PENDING \<and> version v = ''draft''}.
                     version_tasks (version_id v))"
    unfolding s pending_draft_versions_set by blast
  have b: "version_tasks (version_id v) \<inter> set (validate_draft_version_metadata d []) = {}"
    if dist: "distinct (map version_id (Version_objects d))"
      and v: "v \<in> set (Version_objects d)" and nd: "version v \<noteq> ''draft''" for v
  proof -
    have "version_id v \<notin> set (pending_draft_versions d)"
    proof
      assume "version_id v \<in> set (pending_draft_versions d)"
      then obtain w where w: "w \<in> set (Version_objects d)" "version w = ''draft''"
          "version_id w = version_id v"
        unfolding pending_draft_versions_set by auto
      then have "w = v"
        using dist v by (meson distinct_map inj_onD)
      then show False using w nd by simp
    qed
    then show ?thesis
      unfolding s by (auto simp: version_tasks_def)
  qed
  show ?thesis using a b by blast
qed

theorem sweep_schedules_pending_drafts_only_witness:
  "set (validate_draft_version_metadata example_db []) = version_tasks 3
   \<and> version_tasks 2 \<inter> set (validate_draft_version_metadata example_db []) = {}"
proof -
  have d: "distinct (map version_id (Version_objects example_db))"
    by (simp add: example_defs)
  have m: "published_version \<in> set (Version_objects example_db)"
    by (simp add: example_defs)
  have nd: "version published_version \<noteq> ''draft''"
    by (simp add: published_version_def)
  have i: "version_id published_version = 2"
    by (simp add: published_version_def)
  have s: "{v \<in> set (Version_objects example_db).
             version_status v = PENDING \<and> version v = ''draft''} = {other_draft_version}"
    by (auto simp: example_defs)
  have j: "version_id other_draft_version = 3"
    by (simp add: other_draft_version_def)
  have a: "set (validate_draft_version_metadata example_db []) = version_tasks 3"
    using sweep_schedules_pending_drafts_only [of example_db "[]"] s j by simp
  have b: "version_tasks (version_id published_version)
             \<inter> set (validate_draft_version_metadata example_db []) = {}"
    using sweep_schedules_pending_drafts_only [of example_db "[]"] d m nd by blast
  show ?thesis
    using a b i by simp
qed

end
